theory Spec2Isabelle
  imports Complex_Main
begin

section \<open>Numbers, buffers and loops\<close>

text \<open>
  The program is TypeScript. Its \<^verbatim>\<open>number\<close> values are modelled as \<^typ>\<open>real\<close>: every
  arithmetic operation is exact, so the rounding of IEEE doubles and of the 32-bit cells of a
  \<^verbatim>\<open>Float32Array\<close> is not part of this development, and neither are NaN and the
  infinities. Counts and indices are \<^typ>\<open>nat\<close>.

  A \<^verbatim>\<open>for (let i = a; i < n; i++) body\<close> loop over a state \<open>s\<close> is the function
  \<open>for_loop\<close>: the body receives the loop variable and the state and returns the new state.
\<close>

function for_loop :: "nat \<Rightarrow> nat \<Rightarrow> (nat \<Rightarrow> 's \<Rightarrow> 's) \<Rightarrow> 's \<Rightarrow> 's" where
  "for_loop i n body s = (if i < n then for_loop (Suc i) n body (body i s) else s)"
  by pat_completeness auto
termination
  by (relation "measure (\<lambda>(i, n, body, s). n - i)") auto

declare for_loop.simps [simp del]

section \<open>types.ts\<close>

datatype GestureType = NONE | ONE | TWO | THREE | FOUR

record coords =
  coord_x :: real
  coord_y :: real

record HandState =
  gesture :: GestureType
  openness :: real
  position :: coords

section \<open>App.tsx: the gesture classifier\<close>

text \<open>
  A landmark is an object with the fields \<^verbatim>\<open>x\<close> and \<^verbatim>\<open>y\<close> (its \<^verbatim>\<open>z\<close> is never
  read). \<^verbatim>\<open>landmarks[i]\<close> past the end of the array is \<^verbatim>\<open>undefined\<close>, and reading a field
  of \<^verbatim>\<open>undefined\<close> throws a \<^verbatim>\<open>TypeError\<close>: \<open>landmark_at\<close> is that read, and a thrown
  exception is the left injection of the result.
\<close>

record landmark =
  lm_x :: real
  lm_y :: real

datatype error = TypeError

definition landmark_at :: "landmark list \<Rightarrow> nat \<Rightarrow> error + landmark" where
  "landmark_at landmarks i = (if i < length landmarks then Inr (landmarks ! i) else Inl TypeError)"

definition and_then :: "error + 'a \<Rightarrow> ('a \<Rightarrow> error + 'b) \<Rightarrow> error + 'b" where
  "and_then r f = (case r of Inl e \<Rightarrow> Inl e | Inr v \<Rightarrow> f v)"

definition isFingerUp :: "landmark list \<Rightarrow> nat \<Rightarrow> nat \<Rightarrow> error + bool" where
  "isFingerUp landmarks tipIdx pipIdx =
     and_then (landmark_at landmarks tipIdx) (\<lambda>tip.
     and_then (landmark_at landmarks pipIdx) (\<lambda>pip.
       Inr (lm_y tip < lm_y pip)))"

definition count_fingers :: "bool \<Rightarrow> bool \<Rightarrow> bool \<Rightarrow> bool \<Rightarrow> nat" where
  "count_fingers indexUp middleUp ringUp pinkyUp =
     (let fingersCount = 0;
          fingersCount = (if indexUp then fingersCount + 1 else fingersCount);
          fingersCount = (if middleUp then fingersCount + 1 else fingersCount);
          fingersCount = (if ringUp then fingersCount + 1 else fingersCount);
          fingersCount = (if pinkyUp then fingersCount + 1 else fingersCount)
      in fingersCount)"

definition gesture_of_count :: "nat \<Rightarrow> GestureType" where
  "gesture_of_count fingersCount =
     (if fingersCount = 1 then ONE
      else if fingersCount = 2 then TWO
      else if fingersCount = 3 then THREE
      else if fingersCount = 4 then FOUR
      else NONE)"

definition distance_between :: "landmark \<Rightarrow> landmark \<Rightarrow> real" where
  "distance_between thumbTip indexTip =
     sqrt ((lm_x thumbTip - lm_x indexTip) ^ 2 + (lm_y thumbTip - lm_y indexTip) ^ 2)"

definition openness_of_distance :: "real \<Rightarrow> real" where
  "openness_of_distance distance = min (max ((distance - 0.05) * 4) 0) 1.5"

text \<open>
  \<open>analyzeGesture\<close> returns the value it passes to \<^verbatim>\<open>setHandState\<close>, its last
  statement and only effect, or the exception that escaped before that call. The reads are
  in the order of the source, the unused \<^verbatim>\<open>thumbUp\<close> included.
\<close>

definition analyzeGesture :: "landmark list \<Rightarrow> error + HandState" where
  "analyzeGesture landmarks =
     and_then (isFingerUp landmarks 8 6) (\<lambda>indexUp.
     and_then (isFingerUp landmarks 12 10) (\<lambda>middleUp.
     and_then (isFingerUp landmarks 16 14) (\<lambda>ringUp.
     and_then (isFingerUp landmarks 20 18) (\<lambda>pinkyUp.
     and_then (landmark_at landmarks 4) (\<lambda>thumb4.
     and_then (landmark_at landmarks 3) (\<lambda>thumb3.
     let thumbUp = (lm_x thumb4 < lm_x thumb3);
         fingersCount = count_fingers indexUp middleUp ringUp pinkyUp;
         gesture = gesture_of_count fingersCount
     in
     and_then (landmark_at landmarks 4) (\<lambda>thumbTip.
     and_then (landmark_at landmarks 8) (\<lambda>indexTip.
     let distance = distance_between thumbTip indexTip;
         openness = openness_of_distance distance
     in
     and_then (landmark_at landmarks 0) (\<lambda>wrist.
     let xPos = (lm_x wrist - 0.5) * (- 2);
         yPos = (lm_y wrist - 0.5) * (- 2)
     in Inr \<lparr>gesture = gesture, openness = openness,
              position = \<lparr>coord_x = xPos, coord_y = yPos\<rparr>\<rparr>)))))))))"

text \<open>
  One run of the body of \<^verbatim>\<open>detect\<close>. The four conjuncts of its guard are the fields of
  \<open>detector\<close>; \<open>results\<close> is \<^verbatim>\<open>results.landmarks\<close> as the hand landmarker returned it
  (\<open>None\<close> when the field is absent). The result is the exception that escaped, if any,
  and the hand state afterwards; an exception leaves the state as it was, since nothing
  is written before it.
\<close>

record detector =
  landmarker_loaded :: bool
  webcam_mounted :: bool
  video_present :: bool
  readyState :: nat

definition initialHandState :: HandState where
  "initialHandState = \<lparr>gesture = NONE, openness = 1.0, position = \<lparr>coord_x = 0, coord_y = 0\<rparr>\<rparr>"

definition detect :: "detector \<Rightarrow> landmark list list option \<Rightarrow> HandState \<Rightarrow> error option \<times> HandState" where
  "detect env results handState =
     (if landmarker_loaded env \<and> webcam_mounted env \<and> video_present env \<and> readyState env = 4
      then
        (case results of
           Some (landmarks # others) \<Rightarrow>
             (case analyzeGesture landmarks of
                Inl e \<Rightarrow> (Some e, handState)
              | Inr newState \<Rightarrow> (None, newState))
         | _ \<Rightarrow> (None, handState\<lparr>gesture := NONE\<rparr>))
      else (None, handState))"

section \<open>utils/textSampler.ts: the formation samplers\<close>

text \<open>
  A \<^verbatim>\<open>Float32Array\<close> is a list of reals; \<^verbatim>\<open>new Float32Array(n)\<close> is \<open>n\<close> zeros, and a
  write \<^verbatim>\<open>a[i] = v\<close> is \<open>a[i := v]\<close> (both ignore an index past the end).

  \<^verbatim>\<open>Math.random()\<close> returns a number in \<open>[0, 1)\<close>; the type \<open>unit_draw\<close> is that interval.
  The generator is the sequence \<open>rnd\<close> of its draws and the number \<open>k\<close> of draws made so
  far, which every sampler takes and returns next to its buffer.

  \<open>count\<close> is a natural number, as at every call of the samplers
  (\<^verbatim>\<open>new Float32Array\<close> accepts no other length).
\<close>

typedef unit_draw = "{u :: real. 0 \<le> u \<and> u < 1}"
  by (rule exI [of _ 0]) simp

type_synonym random_source = "nat \<Rightarrow> unit_draw"

definition Math_random :: "random_source \<Rightarrow> nat \<Rightarrow> real" where
  "Math_random rnd k = Rep_unit_draw (rnd k)"

text \<open>
  A JavaScript string is a sequence of UTF-16 code units. The browser is the function
  \<open>canvas\<close>: for the text and font size of one call it is \<open>None\<close> when
  \<^verbatim>\<open>getContext('2d')\<close> returns null, and otherwise the RGBA bytes that
  \<^verbatim>\<open>getImageData(0, 0, width, height)\<close> returns after the text was drawn.
\<close>

type_synonym js_string = "nat list"

type_synonym canvas = "js_string \<Rightarrow> real \<Rightarrow> nat list option"

definition width :: nat where
  "width = 200"

definition height :: nat where
  "height = 200"

definition is_white :: "nat list \<Rightarrow> nat \<Rightarrow> bool" where
  \<comment> \<open>\<^verbatim>\<open>data[index] > 128\<close>; a read past the end is \<^verbatim>\<open>undefined\<close>, which compares false\<close>
  "is_white data index = (index < length data \<and> 128 < data ! index)"

definition scan_pixel :: "nat list \<Rightarrow> nat \<Rightarrow> nat \<Rightarrow> nat list \<Rightarrow> nat list" where
  "scan_pixel data y x validPixels =
     (let index = (y * width + x) * 4
      in if is_white data index then validPixels @ [x, y] else validPixels)"

definition scan_row :: "nat list \<Rightarrow> nat \<Rightarrow> nat list \<Rightarrow> nat list" where
  "scan_row data y validPixels = for_loop 0 width (scan_pixel data y) validPixels"

definition find_white_pixels :: "nat list \<Rightarrow> nat list" where
  "find_white_pixels data = for_loop 0 height (scan_row data) []"

definition sample_pixel :: "random_source \<Rightarrow> nat list \<Rightarrow> nat \<Rightarrow> real list \<times> nat \<Rightarrow> real list \<times> nat" where
  "sample_pixel rnd validPixels i st =
     (let positions = fst st; k = snd st;
          pixelIndex = nat \<lfloor>Math_random rnd k * (real (length validPixels) / 2)\<rfloor> * 2;
          px = validPixels ! pixelIndex;
          py = validPixels ! (pixelIndex + 1);
          x = (real px - real width / 2) * 0.15;
          y = - (real py - real height / 2) * 0.15;
          z = (Math_random rnd (k + 1) - 0.5) * 2;
          positions = positions[i * 3 := x];
          positions = positions[i * 3 + 1 := y];
          positions = positions[i * 3 + 2 := z]
      in (positions, k + 2))"

definition samplePointsFromText ::
  "canvas \<Rightarrow> random_source \<Rightarrow> js_string \<Rightarrow> nat \<Rightarrow> real \<Rightarrow> nat \<Rightarrow> real list \<times> nat" where
  "samplePointsFromText canvas rnd text count fontSize k =
     (case canvas text fontSize of
        None \<Rightarrow> (replicate (count * 3) 0, k)
      | Some data \<Rightarrow>
          (let validPixels = find_white_pixels data;
               positions = replicate (count * 3) 0
           in if length validPixels = 0 then (positions, k)
              else for_loop 0 count (sample_pixel rnd validPixels) (positions, k)))"

definition sample_sphere :: "random_source \<Rightarrow> real \<Rightarrow> nat \<Rightarrow> real list \<times> nat \<Rightarrow> real list \<times> nat" where
  "sample_sphere rnd radius i st =
     (let positions = fst st; k = snd st;
          r = radius * root 3 (Math_random rnd k);
          theta = Math_random rnd (k + 1) * 2 * pi;
          phi = arccos (2 * Math_random rnd (k + 2) - 1);
          x = r * sin phi * cos theta;
          y = r * sin phi * sin theta;
          z = r * cos phi;
          positions = positions[i * 3 := x];
          positions = positions[i * 3 + 1 := y];
          positions = positions[i * 3 + 2 := z]
      in (positions, k + 3))"

definition generateSphereCloud :: "random_source \<Rightarrow> nat \<Rightarrow> real \<Rightarrow> nat \<Rightarrow> real list \<times> nat" where
  "generateSphereCloud rnd count radius k =
     for_loop 0 count (sample_sphere rnd radius) (replicate (count * 3) 0, k)"

section \<open>components/ParticleSystem.tsx: the blending engine\<close>

definition PARTICLE_COUNT :: nat where
  "PARTICLE_COUNT = 3000"

definition LERP_SPEED :: real where
  "LERP_SPEED = 0.08"

record targets =
  sphere :: "real list"
  char1 :: "real list"
  char2 :: "real list"
  char3 :: "real list"
  char4 :: "real list"

text \<open>
  The \<^verbatim>\<open>useMemo\<close> that builds the five formations, in the order of the object literal;
  the four glyphs are the code units U+751F, U+65E5, U+5FEB and U+4E50.
\<close>

definition make_targets :: "canvas \<Rightarrow> random_source \<Rightarrow> nat \<Rightarrow> targets \<times> nat" where
  "make_targets canvas rnd k =
     (let s = generateSphereCloud rnd PARTICLE_COUNT 8 k;
          c1 = samplePointsFromText canvas rnd [0x751F] PARTICLE_COUNT 140 (snd s);
          c2 = samplePointsFromText canvas rnd [0x65E5] PARTICLE_COUNT 140 (snd c1);
          c3 = samplePointsFromText canvas rnd [0x5FEB] PARTICLE_COUNT 140 (snd c2);
          c4 = samplePointsFromText canvas rnd [0x4E50] PARTICLE_COUNT 140 (snd c3)
      in (\<lparr>sphere = fst s, char1 = fst c1, char2 = fst c2, char3 = fst c3, char4 = fst c4\<rparr>,
          snd c4))"

definition select_target :: "targets \<Rightarrow> GestureType \<Rightarrow> real list" where
  "select_target targets g =
     (case g of
        ONE \<Rightarrow> char1 targets
      | TWO \<Rightarrow> char2 targets
      | THREE \<Rightarrow> char3 targets
      | FOUR \<Rightarrow> char4 targets
      | _ \<Rightarrow> sphere targets)"

text \<open>
  The arrays the frame callback works on are objects on the heap: \<open>positions\<close> is the
  array of the second \<^verbatim>\<open>useMemo\<close>, \<open>currentPositions\<close> the array of the geometry's
  position attribute. The store maps a reference to the contents of its array, so the model
  is right whether or not the two references are the same array. The formations are never
  written and \<open>positions\<close> is created as a copy of the sphere, so they are plain values.
  Every index the loop uses is below \<open>3 * PARTICLE_COUNT\<close>.
\<close>

type_synonym ref = nat

type_synonym store = "ref \<Rightarrow> real list"

definition adjust_target ::
  "HandState \<Rightarrow> real \<Rightarrow> nat \<Rightarrow> real \<Rightarrow> real \<Rightarrow> real \<Rightarrow> real \<Rightarrow> real \<times> real \<times> real" where
  \<comment> \<open>lines 75 to 94; \<open>positions_idx\<close> is \<^verbatim>\<open>positions[idx]\<close>\<close>
  "adjust_target handState time i positions_idx tx ty tz =
     (if gesture handState = NONE then
        (let expansionFactor = 0.5 + (openness handState * 1.5);
             tx = tx * expansionFactor;
             ty = ty * expansionFactor;
             tz = tz * expansionFactor;
             noise = sin (time + real i * 0.1) * 0.2;
             tx = tx + noise;
             ty = ty + cos (time * 0.5 + real i * 0.05) * 0.2
         in (tx, ty, tz))
      else
        (let ty = ty + sin (time * 2 + positions_idx * 0.5) * 0.05
         in (tx, ty, tz)))"

definition particle_target ::
  "real list \<Rightarrow> HandState \<Rightarrow> real \<Rightarrow> ref \<Rightarrow> nat \<Rightarrow> store \<Rightarrow> real \<times> real \<times> real" where
  \<comment> \<open>lines 67 to 94: the target of slot \<open>i\<close>, on the store the iteration finds\<close>
  "particle_target targetPositions handState time positions i h =
     (let idx = i * 3;
          tx = targetPositions ! idx;
          ty = targetPositions ! (idx + 1);
          tz = targetPositions ! (idx + 2)
      in adjust_target handState time i (h positions ! idx) tx ty tz)"

definition animate_particle ::
  "real list \<Rightarrow> HandState \<Rightarrow> real \<Rightarrow> ref \<Rightarrow> ref \<Rightarrow> nat \<Rightarrow> store \<Rightarrow> store" where
  \<comment> \<open>the body of the loop, lines 67 to 106\<close>
  "animate_particle targetPositions handState time positions currentPositions i h =
     (let idx = i * 3;
          t = particle_target targetPositions handState time positions i h;
          tx = fst t; ty = fst (snd t); tz = snd (snd t);
          dx = tx - h currentPositions ! idx;
          dy = ty - h currentPositions ! (idx + 1);
          dz = tz - h currentPositions ! (idx + 2);
          h = h(currentPositions :=
                 (h currentPositions)[idx := h currentPositions ! idx + dx * LERP_SPEED]);
          h = h(currentPositions :=
                 (h currentPositions)[idx + 1 := h currentPositions ! (idx + 1) + dy * LERP_SPEED]);
          h = h(currentPositions :=
                 (h currentPositions)[idx + 2 := h currentPositions ! (idx + 2) + dz * LERP_SPEED])
      in h)"

definition blend :: "real \<Rightarrow> real \<Rightarrow> real" where
  \<comment> \<open>lines 99 and 104 for one axis: \<^verbatim>\<open>d = t - current; current += d * LERP_SPEED\<close>\<close>
  "blend current t = (let d = t - current in current + d * LERP_SPEED)"

definition MathUtils_lerp :: "real \<Rightarrow> real \<Rightarrow> real \<Rightarrow> real" where
  \<comment> \<open>three.js: \<^verbatim>\<open>lerp(x, y, t) = (1 - t) * x + t * y\<close>\<close>
  "MathUtils_lerp x y t = (1 - t) * x + t * y"

record scene =
  arrays :: store
  needsUpdate :: bool
  rotation_x :: real
  rotation_y :: real

text \<open>
  One call of the frame callback. \<open>pointsRef\<close> is \<^verbatim>\<open>pointsRef.current\<close>: \<open>None\<close> before
  the points object is mounted, and otherwise the reference of its position array.
\<close>

definition useFrame ::
  "targets \<Rightarrow> HandState \<Rightarrow> ref \<Rightarrow> ref option \<Rightarrow> real \<Rightarrow> scene \<Rightarrow> scene" where
  "useFrame targets handState positions pointsRef time s =
     (case pointsRef of
        None \<Rightarrow> s
      | Some currentPositions \<Rightarrow>
          (let targetPositions = select_target targets (gesture handState);
               h = for_loop 0 PARTICLE_COUNT
                     (animate_particle targetPositions handState time positions currentPositions)
                     (arrays s)
           in s\<lparr>arrays := h,
                needsUpdate := True,
                rotation_x :=
                  MathUtils_lerp (rotation_x s) (coord_y (position handState) * 0.2) 0.1,
                rotation_y :=
                  MathUtils_lerp (rotation_y s) (coord_x (position handState) * 0.2) 0.1\<rparr>))"

text \<open>The frame driver calls the callback once per render tick, at the times \<open>ts\<close>.\<close>

primrec frames ::
  "targets \<Rightarrow> HandState \<Rightarrow> ref \<Rightarrow> ref option \<Rightarrow> real list \<Rightarrow> scene \<Rightarrow> scene" where
  "frames targets handState positions pointsRef [] s = s"
| "frames targets handState positions pointsRef (time # ts) s =
     frames targets handState positions pointsRef ts
       (useFrame targets handState positions pointsRef time s)"

section \<open>Notions used to state the properties\<close>

text \<open>
  The specification's view of the classifier: the four finger pairs (tip, PIP), the number
  of pairs whose tip is strictly above its PIP, the table from that number to a gesture,
  and the clamp of a value to an interval.
\<close>

definition finger_pairs :: "(nat \<times> nat) list" where
  "finger_pairs = [(8, 6), (12, 10), (16, 14), (20, 18)]"

definition fingers_up :: "landmark list \<Rightarrow> nat" where
  "fingers_up landmarks =
     length (filter (\<lambda>(tip, pip). lm_y (landmarks ! tip) < lm_y (landmarks ! pip)) finger_pairs)"

definition gesture_table :: "nat \<Rightarrow> GestureType option" where
  "gesture_table k =
     (if k = 0 then Some NONE
      else if k = 1 then Some ONE
      else if k = 2 then Some TWO
      else if k = 3 then Some THREE
      else if k = 4 then Some FOUR
      else None)"



text \<open>
  The specification's view of the target of slot \<open>i\<close> at time \<open>t\<close>, for a particle whose
  current X position is \<open>currentX\<close>: the scaled sphere with noise when the gesture is
  \<open>NONE\<close>, and otherwise the glyph of the gesture with a wobble on Y.
\<close>

definition specified_target ::
  "targets \<Rightarrow> HandState \<Rightarrow> real \<Rightarrow> nat \<Rightarrow> real \<Rightarrow> real \<times> real \<times> real" where
  "specified_target targets signal t i currentX =
     (if gesture signal = NONE then
        (let expansionFactor = 0.5 + openness signal * 1.5
         in (sphere targets ! (3 * i) * expansionFactor + sin (t + real i * 0.1) * 0.2,
             sphere targets ! (3 * i + 1) * expansionFactor + cos (t * 0.5 + real i * 0.05) * 0.2,
             sphere targets ! (3 * i + 2) * expansionFactor))
      else
        (let glyph = (case gesture signal of
                        ONE \<Rightarrow> char1 targets
                      | TWO \<Rightarrow> char2 targets
                      | THREE \<Rightarrow> char3 targets
                      | FOUR \<Rightarrow> char4 targets
                      | NONE \<Rightarrow> sphere targets)
         in (glyph ! (3 * i),
             glyph ! (3 * i + 1) + sin (t * 2 + currentX * 0.5) * 0.05,
             glyph ! (3 * i + 2))))"

text \<open>The coordinate of a point on axis 0, 1 or 2.\<close>

definition coordinate :: "real \<times> real \<times> real \<Rightarrow> nat \<Rightarrow> real" where
  "coordinate p a = (if a = 0 then fst p else if a = 1 then fst (snd p) else snd (snd p))"

text \<open>Concrete inputs, on which the theorems below are instantiated.\<close>

definition ready_detector :: detector where
  "ready_detector =
     \<lparr>landmarker_loaded = True, webcam_mounted = True, video_present = True, readyState = 4\<rparr>"

definition raised_frame :: "nat list \<Rightarrow> landmark list" where
  \<comment> \<open>21 landmarks; those listed in \<open>tips\<close> are at the top of the image, the others at the bottom\<close>
  "raised_frame tips =
     map (\<lambda>i. \<lparr>lm_x = 0, lm_y = (if i \<in> set tips then 0 else 1)\<rparr>) [0..<21]"


definition long_frame :: "landmark list" where
  "long_frame = replicate 22 \<lparr>lm_x = 0.5, lm_y = 0.5\<rparr>"

definition flat_targets :: "real \<Rightarrow> targets" where
  "flat_targets v =
     \<lparr>sphere = replicate (3 * PARTICLE_COUNT) v,
      char1 = replicate (3 * PARTICLE_COUNT) v,
      char2 = replicate (3 * PARTICLE_COUNT) v,
      char3 = replicate (3 * PARTICLE_COUNT) v,
      char4 = replicate (3 * PARTICLE_COUNT) v\<rparr>"

definition still_scene :: "real \<Rightarrow> scene" where
  "still_scene c =
     \<lparr>arrays = (\<lambda>r. replicate (3 * PARTICLE_COUNT) c), needsUpdate = False,
      rotation_x = 0, rotation_y = 0\<rparr>"

definition dark_canvas :: canvas where
  "dark_canvas text fontSize = Some (replicate (width * height * 4) 0)"

definition no_canvas :: canvas where
  "no_canvas text fontSize = None"

definition zero_draws :: random_source where
  "zero_draws k = Abs_unit_draw 0"

section \<open>Properties of the loop\<close>

lemma for_loop_done: "n \<le> i \<Longrightarrow> for_loop i n body s = s"
  by (simp add: for_loop.simps)

lemma for_loop_Suc:
  "i \<le> n \<Longrightarrow> for_loop i (Suc n) body s = body n (for_loop i n body s)"
proof (induction "n - i" arbitrary: i s)
  case 0
  then have "i = n" by simp
  then show ?case
    by (simp add: for_loop.simps [of n "Suc n"] for_loop.simps [of "Suc n" "Suc n"]
        for_loop.simps [of n n])
next
  case (Suc d)
  then have lt: "i < n" and d: "d = n - Suc i" and le: "Suc i \<le> n" by simp_all
  have "for_loop i (Suc n) body s = for_loop (Suc i) (Suc n) body (body i s)"
    using lt by (simp add: for_loop.simps [of i "Suc n"])
  also have "\<dots> = body n (for_loop (Suc i) n body (body i s))"
    using Suc.hyps(1) [OF d le] .
  also have "for_loop (Suc i) n body (body i s) = for_loop i n body s"
    using lt by (simp add: for_loop.simps [of i n])
  finally show ?case .
qed

lemma for_loop_invariant:
  assumes "P s" and "\<And>j t. i \<le> j \<Longrightarrow> j < n \<Longrightarrow> P t \<Longrightarrow> P (body j t)"
  shows "P (for_loop i n body s)"
  using assms
proof (induction i n body s rule: for_loop.induct)
  case (1 i n body s)
  show ?case
  proof (cases "i < n")
    case True
    have "P (body i s)" using "1.prems" True by simp
    then have "P (for_loop (Suc i) n body (body i s))"
      using "1.IH" [OF True] "1.prems"(2) by simp
    then show ?thesis using True by (simp add: for_loop.simps [of i n])
  next
    case False
    then show ?thesis using "1.prems"(1) by (simp add: for_loop.simps [of i n])
  qed
qed

section \<open>Properties of the gesture classifier\<close>

lemma landmark_at_in: "i < length landmarks \<Longrightarrow> landmark_at landmarks i = Inr (landmarks ! i)"
  by (simp add: landmark_at_def)

lemma landmark_at_out: "length landmarks \<le> i \<Longrightarrow> landmark_at landmarks i = Inl TypeError"
  by (simp add: landmark_at_def)

lemma and_then_Inr [simp]: "and_then (Inr v) f = f v"
  by (simp add: and_then_def)

lemma and_then_Inl [simp]: "and_then (Inl e) f = Inl e"
  by (simp add: and_then_def)

lemma isFingerUp_in:
  "tipIdx < length landmarks \<Longrightarrow> pipIdx < length landmarks \<Longrightarrow>
   isFingerUp landmarks tipIdx pipIdx = Inr (lm_y (landmarks ! tipIdx) < lm_y (landmarks ! pipIdx))"
  by (simp add: isFingerUp_def landmark_at_in)

text \<open>
  With 21 landmarks or more every read succeeds, and the classifier publishes a signal made
  of the landmarks 0 to 20. With fewer, the read of landmark 20 at the latest throws.
\<close>

lemma analyzeGesture_complete:
  assumes "21 \<le> length landmarks"
  shows "analyzeGesture landmarks =
    Inr \<lparr>gesture = gesture_of_count (count_fingers
            (lm_y (landmarks ! 8) < lm_y (landmarks ! 6))
            (lm_y (landmarks ! 12) < lm_y (landmarks ! 10))
            (lm_y (landmarks ! 16) < lm_y (landmarks ! 14))
            (lm_y (landmarks ! 20) < lm_y (landmarks ! 18))),
         openness = openness_of_distance (distance_between (landmarks ! 4) (landmarks ! 8)),
         position = \<lparr>coord_x = (lm_x (landmarks ! 0) - 0.5) * (- 2),
                     coord_y = (lm_y (landmarks ! 0) - 0.5) * (- 2)\<rparr>\<rparr>"
proof -
  have wrist: "landmark_at landmarks 0 = Inr (landmarks ! 0)"
    using assms by (cases landmarks) (simp_all add: landmark_at_def)
  show ?thesis
    using assms by (simp add: analyzeGesture_def isFingerUp_in landmark_at_in wrist Let_def)
qed

lemma analyzeGesture_short:
  assumes "length landmarks < 21"
  shows "analyzeGesture landmarks = Inl TypeError"
proof (cases "isFingerUp landmarks 8 6")
  case (Inl e)
  then show ?thesis by (cases e) (simp add: analyzeGesture_def)
next
  case a: (Inr a)
  show ?thesis
  proof (cases "isFingerUp landmarks 12 10")
    case (Inl e)
    then show ?thesis using a by (cases e) (simp add: analyzeGesture_def)
  next
    case b: (Inr b)
    show ?thesis
    proof (cases "isFingerUp landmarks 16 14")
      case (Inl e)
      then show ?thesis using a b by (cases e) (simp add: analyzeGesture_def)
    next
      case c: (Inr c)
      have "landmark_at landmarks 20 = Inl TypeError"
        using assms by (simp add: landmark_at_out)
      then have "isFingerUp landmarks 20 18 = Inl TypeError"
        by (simp add: isFingerUp_def)
      then show ?thesis using a b c by (simp add: analyzeGesture_def)
    qed
  qed
qed

lemma count_table:
  "gesture_table (count_fingers a b c d) = Some (gesture_of_count (count_fingers a b c d))"
  by (cases a; cases b; cases c; cases d) (simp_all add: count_fingers_def gesture_table_def gesture_of_count_def)

lemma fingers_up_count:
  "fingers_up landmarks = count_fingers
            (lm_y (landmarks ! 8) < lm_y (landmarks ! 6))
            (lm_y (landmarks ! 12) < lm_y (landmarks ! 10))
            (lm_y (landmarks ! 16) < lm_y (landmarks ! 14))
            (lm_y (landmarks ! 20) < lm_y (landmarks ! 18))"
  by (simp add: fingers_up_def finger_pairs_def count_fingers_def)


text \<open>
  Claim C3. For every input of 21 landmarks in which exactly \<open>k\<close> of the four pairs
  index (8, 6), middle (12, 10), ring (16, 14) and pinky (20, 18) have the tip's \<open>y\<close>
  strictly below the PIP's \<open>y\<close>, the thumb left out, the classifier's gesture is the entry
  of the table 0 to \<open>NONE\<close>, 1 to \<open>ONE\<close>, 2 to \<open>TWO\<close>, 3 to \<open>THREE\<close>, 4 to \<open>FOUR\<close> for
  \<open>k\<close>; and \<open>k\<close> is at most 4.
\<close>

theorem finger_count_gesture:
  assumes "length landmarks = 21"
  shows "\<exists>signal. analyzeGesture landmarks = Inr signal \<and>
           gesture_table (fingers_up landmarks) = Some (gesture signal) \<and>
           fingers_up landmarks \<le> 4"
proof -
  have "fingers_up landmarks \<le> 4"
    by (simp add: fingers_up_count count_fingers_def)
  then show ?thesis
    using assms by (simp add: analyzeGesture_complete fingers_up_count count_table)
qed

lemma raised_frame_length: "length (raised_frame tips) = 21"
  by (simp add: raised_frame_def)

lemma raised_frame_nth: "i < 21 \<Longrightarrow> lm_y (raised_frame tips ! i) = (if i \<in> set tips then 0 else 1)"
  by (simp add: raised_frame_def)

text \<open>
  Five frames, with none, one, two, three and four of the fingers raised: the count is the
  number of raised fingers, and the gesture is the one of the table.
\<close>

theorem finger_count_gesture_witness:
  "length (raised_frame []) = 21 \<and> fingers_up (raised_frame []) = 0 \<and>
   map_sum id gesture (analyzeGesture (raised_frame [])) = Inr NONE \<and>
   length (raised_frame [8]) = 21 \<and> fingers_up (raised_frame [8]) = 1 \<and>
   map_sum id gesture (analyzeGesture (raised_frame [8])) = Inr ONE \<and>
   length (raised_frame [8, 12]) = 21 \<and> fingers_up (raised_frame [8, 12]) = 2 \<and>
   map_sum id gesture (analyzeGesture (raised_frame [8, 12])) = Inr TWO \<and>
   length (raised_frame [8, 12, 16]) = 21 \<and> fingers_up (raised_frame [8, 12, 16]) = 3 \<and>
   map_sum id gesture (analyzeGesture (raised_frame [8, 12, 16])) = Inr THREE \<and>
   length (raised_frame [8, 12, 16, 20]) = 21 \<and> fingers_up (raised_frame [8, 12, 16, 20]) = 4 \<and>
   map_sum id gesture (analyzeGesture (raised_frame [8, 12, 16, 20])) = Inr FOUR"
proof -
  have count: "fingers_up (raised_frame []) = 0" "fingers_up (raised_frame [8]) = 1"
    "fingers_up (raised_frame [8, 12]) = 2" "fingers_up (raised_frame [8, 12, 16]) = 3"
    "fingers_up (raised_frame [8, 12, 16, 20]) = 4"
    by (simp_all add: fingers_up_def finger_pairs_def raised_frame_nth)
  show ?thesis
    using finger_count_gesture [of "raised_frame []"] finger_count_gesture [of "raised_frame [8]"]
      finger_count_gesture [of "raised_frame [8, 12]"]
      finger_count_gesture [of "raised_frame [8, 12, 16]"]
      finger_count_gesture [of "raised_frame [8, 12, 16, 20]"]
    by (auto simp add: raised_frame_length count gesture_table_def)
qed





text \<open>
  Claim C8. For every prior hand signal, a processed frame whose landmarks are absent or
  empty sets the gesture to \<open>NONE\<close> and leaves openness and position as they were: no
  field other than the gesture changes.
\<close>

theorem no_hand_retention:
  assumes "landmarker_loaded env \<and> webcam_mounted env \<and> video_present env \<and> readyState env = 4"
    and "results = None \<or> results = Some []"
  shows "detect env results prior = (None, prior\<lparr>gesture := NONE\<rparr>) \<and>
         gesture (snd (detect env results prior)) = NONE \<and>
         openness (snd (detect env results prior)) = openness prior \<and>
         position (snd (detect env results prior)) = position prior"
  using assms by (auto simp add: detect_def)

text \<open>A prior signal with gesture \<open>TWO\<close>, with absent and with empty landmarks.\<close>

theorem no_hand_retention_witness:
  "detect ready_detector None \<lparr>gesture = TWO, openness = 0.6, position = \<lparr>coord_x = 1, coord_y = 0\<rparr>\<rparr> =
     (None, \<lparr>gesture = NONE, openness = 0.6, position = \<lparr>coord_x = 1, coord_y = 0\<rparr>\<rparr>) \<and>
   detect ready_detector (Some []) \<lparr>gesture = TWO, openness = 0.6, position = \<lparr>coord_x = 1, coord_y = 0\<rparr>\<rparr> =
     (None, \<lparr>gesture = NONE, openness = 0.6, position = \<lparr>coord_x = 1, coord_y = 0\<rparr>\<rparr>)"
  using no_hand_retention [of ready_detector None]
    no_hand_retention [of ready_detector "Some []"]
  by (simp add: ready_detector_def)

text \<open>
  Claim C9, as stated, fails: every landmark input whose length is not 21 would make the
  classifier fail with an \<open>InvalidInput\<close> error and publish no signal. The classifier
  never looks at the length: an input of 22 landmarks is classified, and the published
  signal replaces the previous one.
\<close>

theorem long_frame_classified:
  "length long_frame \<noteq> 21 \<and>
   analyzeGesture long_frame =
     Inr \<lparr>gesture = NONE, openness = 0, position = \<lparr>coord_x = 0, coord_y = 0\<rparr>\<rparr> \<and>
   detect ready_detector (Some [long_frame]) initialHandState =
     (None, \<lparr>gesture = NONE, openness = 0, position = \<lparr>coord_x = 0, coord_y = 0\<rparr>\<rparr>) \<and>
   \<lparr>gesture = NONE, openness = 0, position = \<lparr>coord_x = 0, coord_y = 0\<rparr>\<rparr> \<noteq> initialHandState"
proof -
  have len: "21 \<le> length long_frame" by (simp add: long_frame_def)
  have res: "analyzeGesture long_frame =
     Inr \<lparr>gesture = NONE, openness = 0, position = \<lparr>coord_x = 0, coord_y = 0\<rparr>\<rparr>"
    unfolding analyzeGesture_complete [OF len]
    by (simp add: long_frame_def count_fingers_def gesture_of_count_def
        openness_of_distance_def distance_between_def)
  show ?thesis
    by (simp add: res detect_def ready_detector_def initialHandState_def) (simp add: long_frame_def)
qed

text \<open>
  Claim C9, as the code has it. An input of fewer than 21 landmarks makes the classifier
  throw a \<open>TypeError\<close> (the runtime's, from reading a coordinate of a missing landmark)
  before it publishes anything, so the previous signal is retained. An input of 21 landmarks
  or more is classified, from its first 21 landmarks alone.
\<close>

theorem short_frame_throws:
  "(length landmarks < 21 \<longrightarrow>
      analyzeGesture landmarks = Inl TypeError \<and>
      detect env (Some (landmarks # others)) prior =
        (if landmarker_loaded env \<and> webcam_mounted env \<and> video_present env \<and> readyState env = 4
         then Some TypeError else None, prior)) \<and>
   (21 \<le> length landmarks \<longrightarrow>
      analyzeGesture landmarks = analyzeGesture (take 21 landmarks) \<and>
      (\<exists>signal. analyzeGesture landmarks = Inr signal))"
proof (intro conjI impI)
  assume "21 \<le> length landmarks"
  then have "21 \<le> length (take 21 landmarks)" by simp
  then show "analyzeGesture landmarks = analyzeGesture (take 21 landmarks)"
    using \<open>21 \<le> length landmarks\<close> by (simp add: analyzeGesture_complete)
  show "\<exists>signal. analyzeGesture landmarks = Inr signal"
    using \<open>21 \<le> length landmarks\<close> by (simp add: analyzeGesture_complete)
qed (simp_all add: analyzeGesture_short detect_def)

text \<open>A frame of 20 landmarks, and the frame of 22.\<close>

theorem short_frame_throws_witness:
  "length (replicate 20 \<lparr>lm_x = 0.5, lm_y = 0.5\<rparr>) < 21 \<and>
   analyzeGesture (replicate 20 \<lparr>lm_x = 0.5, lm_y = 0.5\<rparr>) = Inl TypeError \<and>
   detect ready_detector (Some [replicate 20 \<lparr>lm_x = 0.5, lm_y = 0.5\<rparr>]) initialHandState =
     (Some TypeError, initialHandState) \<and>
   21 \<le> length long_frame \<and>
   analyzeGesture long_frame = analyzeGesture (take 21 long_frame)"
  using short_frame_throws [of "replicate 20 \<lparr>lm_x = 0.5, lm_y = 0.5\<rparr>" ready_detector "[]" initialHandState]
    short_frame_throws [of long_frame]
  by (simp add: ready_detector_def long_frame_def)

section \<open>Properties of the formation samplers\<close>

lemma Math_random_range: "0 \<le> Math_random rnd k \<and> Math_random rnd k < 1"
  using Rep_unit_draw [of "rnd k"] by (simp add: Math_random_def)

lemma sample_pixel_length: "length (fst (sample_pixel rnd validPixels i st)) = length (fst st)"
  by (simp add: sample_pixel_def Let_def)

lemma sample_sphere_length: "length (fst (sample_sphere rnd radius i st)) = length (fst st)"
  by (simp add: sample_sphere_def Let_def)

lemma generateSphereCloud_length:
  "length (fst (generateSphereCloud rnd count radius k)) = 3 * count"
  unfolding generateSphereCloud_def
  by (rule for_loop_invariant) (simp_all add: sample_sphere_length)

lemma samplePointsFromText_length:
  "length (fst (samplePointsFromText canvas rnd text count fontSize k)) = 3 * count"
proof (cases "canvas text fontSize")
  case None
  then show ?thesis by (simp add: samplePointsFromText_def)
next
  case (Some data)
  have "length (fst (for_loop 0 count (sample_pixel rnd (find_white_pixels data))
          (replicate (count * 3) 0, k))) = 3 * count"
    by (rule for_loop_invariant) (simp_all add: sample_pixel_length)
  then show ?thesis using Some by (simp add: samplePointsFromText_def Let_def)
qed

text \<open>
  The list of white pixels holds pairs, so its length is even, and a draw below 1 selects
  a pair inside it: \<open>sample_pixel\<close> never reads past the end of \<open>validPixels\<close>.
\<close>

lemma scan_pixel_even: "even (length validPixels) \<Longrightarrow> even (length (scan_pixel data y x validPixels))"
  by (simp add: scan_pixel_def Let_def)

lemma find_white_pixels_even: "even (length (find_white_pixels data))"
  unfolding find_white_pixels_def scan_row_def
  by (rule for_loop_invariant, simp, rule for_loop_invariant) (simp_all add: scan_pixel_even)

lemma pixel_index_in_range:
  assumes "even (length validPixels)" and "validPixels \<noteq> []"
  shows "nat \<lfloor>Math_random rnd k * (real (length validPixels) / 2)\<rfloor> * 2 + 1 < length validPixels"
proof -
  obtain m where m: "length validPixels = 2 * m" using assms(1) by (auto elim: evenE)
  then have pos: "0 < m" using assms(2) by (cases m) simp_all
  define u where "u = Math_random rnd k"
  have u: "0 \<le> u" "u < 1" using Math_random_range [of rnd k] by (simp_all add: u_def)
  have "u * real m < real m" using u pos by simp
  then have "\<lfloor>u * real m\<rfloor> < int m" by (simp add: floor_less_iff)
  moreover have "0 \<le> \<lfloor>u * real m\<rfloor>" using u by simp
  ultimately have "nat \<lfloor>u * real m\<rfloor> < m" by linarith
  then show ?thesis by (simp add: m u_def)
qed

text \<open>An image with no white pixel leaves \<open>validPixels\<close> empty.\<close>

lemma scan_row_dark:
  assumes "y < height" and "\<forall>y<height. \<forall>x<width. \<not> is_white data ((y * width + x) * 4)"
  shows "scan_row data y [] = []"
  unfolding scan_row_def
  by (rule for_loop_invariant) (use assms in \<open>simp_all add: scan_pixel_def\<close>)

lemma find_white_pixels_dark:
  assumes "\<forall>y<height. \<forall>x<width. \<not> is_white data ((y * width + x) * 4)"
  shows "find_white_pixels data = []"
  unfolding find_white_pixels_def
  by (rule for_loop_invariant) (use assms in \<open>simp_all add: scan_row_dark\<close>)

lemma dark_pixels: "\<not> is_white (replicate n 0) index"
  by (simp add: is_white_def)

text \<open>
  Claim C6. For every count, every formation the samplers produce is a buffer of exactly
  \<open>count\<close> points, that is \<open>3 * count\<close> numbers: for \<open>generateSphereCloud\<close>, and for
  \<open>samplePointsFromText\<close> on every canvas, the one without a 2D context and the one
  without a white pixel included. In particular the five formations built at initialization
  have \<open>PARTICLE_COUNT = 3000\<close> points each.
\<close>

theorem formation_length:
  "length (fst (generateSphereCloud rnd count radius k)) = 3 * count \<and>
   length (fst (samplePointsFromText canvas rnd text count fontSize k)) = 3 * count \<and>
   length (sphere (fst (make_targets canvas rnd k))) = 3 * PARTICLE_COUNT \<and>
   length (char1 (fst (make_targets canvas rnd k))) = 3 * PARTICLE_COUNT \<and>
   length (char2 (fst (make_targets canvas rnd k))) = 3 * PARTICLE_COUNT \<and>
   length (char3 (fst (make_targets canvas rnd k))) = 3 * PARTICLE_COUNT \<and>
   length (char4 (fst (make_targets canvas rnd k))) = 3 * PARTICLE_COUNT \<and>
   PARTICLE_COUNT = 3000"
  by (simp add: generateSphereCloud_length samplePointsFromText_length make_targets_def Let_def)
    (simp add: PARTICLE_COUNT_def)

text \<open>
  Claim C7. If the rasterized glyph has no filled pixel (no pixel whose red channel is above
  128, or no canvas context), \<open>samplePointsFromText\<close> returns a buffer of the required
  length with every coordinate zero. It returns it as a value: the sampler has no error
  result, and the generator is left where it was.
\<close>

theorem degraded_sampling:
  assumes "canvas text fontSize = None \<or>
           (\<exists>data. canvas text fontSize = Some data \<and>
              (\<forall>y<height. \<forall>x<width. \<not> is_white data ((y * width + x) * 4)))"
  shows "samplePointsFromText canvas rnd text count fontSize k = (replicate (3 * count) 0, k)"
  using assms
  by (auto simp add: samplePointsFromText_def find_white_pixels_dark mult.commute)

text \<open>Two points sampled on a canvas without a context, and on an all-black image.\<close>

theorem degraded_sampling_witness:
  "no_canvas [0x751F] 140 = None \<and>
   samplePointsFromText no_canvas zero_draws [0x751F] 2 140 0 = ([0, 0, 0, 0, 0, 0], 0) \<and>
   dark_canvas [0x751F] 140 = Some (replicate (width * height * 4) 0) \<and>
   find_white_pixels (replicate (width * height * 4) 0) = [] \<and>
   samplePointsFromText dark_canvas zero_draws [0x751F] 2 140 0 = ([0, 0, 0, 0, 0, 0], 0)"
proof -
  have six: "replicate (3 * 2) (0::real) = [0, 0, 0, 0, 0, 0]"
    by code_simp
  show ?thesis
    using degraded_sampling [of no_canvas "[0x751F]" 140 zero_draws 2 0]
      degraded_sampling [of dark_canvas "[0x751F]" 140 zero_draws 2 0]
    unfolding six
    by (simp add: no_canvas_def dark_canvas_def dark_pixels find_white_pixels_dark)
qed

section \<open>Properties of the blending engine\<close>

lemma animate_particle_other:
  "r \<noteq> currentPositions \<Longrightarrow>
   animate_particle tp hs time positions currentPositions i h r = h r"
  by (simp add: animate_particle_def Let_def)

lemma animate_particle_current:
  "animate_particle tp hs time positions currentPositions i h currentPositions =
     (h currentPositions)
       [i * 3 := blend (h currentPositions ! (i * 3))
                   (coordinate (particle_target tp hs time positions i h) 0),
        i * 3 + 1 := blend (h currentPositions ! (i * 3 + 1))
                   (coordinate (particle_target tp hs time positions i h) 1),
        i * 3 + 2 := blend (h currentPositions ! (i * 3 + 2))
                   (coordinate (particle_target tp hs time positions i h) 2)]"
  by (simp add: animate_particle_def Let_def blend_def coordinate_def)

lemma particle_target_cong:
  "h positions ! (i * 3) = h' positions ! (i * 3) \<Longrightarrow>
   particle_target tp hs time positions i h = particle_target tp hs time positions i h'"
  by (simp add: particle_target_def Let_def)

lemma triple_update_nth:
  "j < length xs \<Longrightarrow>
   xs[p := u, p + 1 := v, p + 2 := w] ! j =
     (if j = p then u else if j = p + 1 then v else if j = p + 2 then w else xs ! j)"
  by (simp add: nth_list_update)

text \<open>
  The state of the loop after \<open>k\<close> particles: no other array has changed, the position array
  has kept its length, the slots from \<open>k\<close> on are untouched, and every coordinate of a slot
  below \<open>k\<close> is the blend of its old value with its target. The target is the one computed
  on the store the tick started from: when iteration \<open>i\<close> reads \<^verbatim>\<open>positions[idx]\<close>, no
  earlier iteration has written that cell, whether \<open>positions\<close> is the position array or not.
\<close>

lemma animate_loop_invariant:
  fixes h :: store and tp hs time positions currentPositions
  defines "step \<equiv> animate_particle tp hs time positions currentPositions"
  shows "(\<forall>r. r \<noteq> currentPositions \<longrightarrow> for_loop 0 k step h r = h r) \<and>
         length (for_loop 0 k step h currentPositions) = length (h currentPositions) \<and>
         (\<forall>j. 3 * k \<le> j \<longrightarrow> for_loop 0 k step h currentPositions ! j = h currentPositions ! j) \<and>
         (\<forall>i a. i < k \<and> a < 3 \<and> 3 * i + a < length (h currentPositions) \<longrightarrow>
            for_loop 0 k step h currentPositions ! (3 * i + a) =
              blend (h currentPositions ! (3 * i + a))
                (coordinate (particle_target tp hs time positions i h) a))"
proof (induction k)
  case 0
  show ?case by (simp add: for_loop_done)
next
  case (Suc k)
  define H where "H = for_loop 0 k step h"
  have other: "\<And>r. r \<noteq> currentPositions \<Longrightarrow> H r = h r"
    and len: "length (H currentPositions) = length (h currentPositions)"
    and rest: "\<And>j. 3 * k \<le> j \<Longrightarrow> H currentPositions ! j = h currentPositions ! j"
    and upd: "\<And>i a. i < k \<Longrightarrow> a < 3 \<Longrightarrow> 3 * i + a < length (h currentPositions) \<Longrightarrow>
            H currentPositions ! (3 * i + a) =
              blend (h currentPositions ! (3 * i + a))
                (coordinate (particle_target tp hs time positions i h) a)"
    using Suc.IH unfolding H_def by blast+
  have next_eq: "for_loop 0 (Suc k) step h = step k H"
    unfolding H_def by (rule for_loop_Suc) simp
  have "H positions ! (k * 3) = h positions ! (k * 3)"
  proof (cases "positions = currentPositions")
    case True
    then show ?thesis using rest [of "k * 3"] by simp
  next
    case False
    then show ?thesis using other by simp
  qed
  then have target: "particle_target tp hs time positions k H = particle_target tp hs time positions k h"
    by (rule particle_target_cong)
  have cur: "step k H currentPositions =
     (H currentPositions)
       [k * 3 := blend (h currentPositions ! (k * 3))
                   (coordinate (particle_target tp hs time positions k h) 0),
        k * 3 + 1 := blend (h currentPositions ! (k * 3 + 1))
                   (coordinate (particle_target tp hs time positions k h) 1),
        k * 3 + 2 := blend (h currentPositions ! (k * 3 + 2))
                   (coordinate (particle_target tp hs time positions k h) 2)]"
    unfolding step_def animate_particle_current target
    using rest [of "k * 3"] rest [of "k * 3 + 1"] rest [of "k * 3 + 2"] by simp
  have A: "\<forall>r. r \<noteq> currentPositions \<longrightarrow> for_loop 0 (Suc k) step h r = h r"
    unfolding next_eq using other by (simp add: step_def animate_particle_other)
  have B: "length (for_loop 0 (Suc k) step h currentPositions) = length (h currentPositions)"
    unfolding next_eq cur using len by simp
  have C: "\<forall>j. 3 * Suc k \<le> j \<longrightarrow>
      for_loop 0 (Suc k) step h currentPositions ! j = h currentPositions ! j"
    unfolding next_eq cur using rest by simp
  have D: "\<forall>i a. i < Suc k \<and> a < 3 \<and> 3 * i + a < length (h currentPositions) \<longrightarrow>
            for_loop 0 (Suc k) step h currentPositions ! (3 * i + a) =
              blend (h currentPositions ! (3 * i + a))
                (coordinate (particle_target tp hs time positions i h) a)"
  proof (intro allI impI)
    fix i a
    assume asm: "i < Suc k \<and> a < 3 \<and> 3 * i + a < length (h currentPositions)"
    then have inr: "3 * i + a < length (H currentPositions)" using len by simp
    show "for_loop 0 (Suc k) step h currentPositions ! (3 * i + a) =
              blend (h currentPositions ! (3 * i + a))
                (coordinate (particle_target tp hs time positions i h) a)"
    proof (cases "i < k")
      case True
      then have "3 * i + a \<noteq> k * 3" "3 * i + a \<noteq> k * 3 + 1" "3 * i + a \<noteq> k * 3 + 2"
        using asm by simp_all
      then show ?thesis
        unfolding next_eq cur using upd [of i a] True asm inr
        by (simp add: triple_update_nth)
    next
      case False
      then have ik: "i = k" using asm by simp
      from asm consider "a = 0" | "a = 1" | "a = 2" by linarith
      then show ?thesis
      proof cases
        case 1
        then show ?thesis unfolding next_eq cur using inr ik
          by (simp add: triple_update_nth mult.commute)
      next
        case 2
        then show ?thesis unfolding next_eq cur using inr ik
          by (simp add: triple_update_nth mult.commute)
      next
        case 3
        then show ?thesis unfolding next_eq cur using inr ik
          by (simp add: triple_update_nth mult.commute)
      qed
    qed
  qed
  show ?case using A B C D by blast
qed

lemma useFrame_slot:
  assumes "i < PARTICLE_COUNT" and "a < 3" and "3 * i + a < length (arrays s currentPositions)"
  shows "arrays (useFrame targets handState positions (Some currentPositions) time s)
           currentPositions ! (3 * i + a) =
         blend (arrays s currentPositions ! (3 * i + a))
           (coordinate (particle_target (select_target targets (gesture handState))
              handState time positions i (arrays s)) a)"
  using animate_loop_invariant [where k = PARTICLE_COUNT
      and tp = "select_target targets (gesture handState)" and hs = handState and time = time
      and positions = positions and currentPositions = currentPositions and h = "arrays s"] assms
  by (simp add: useFrame_def Let_def)

lemma useFrame_length:
  "length (arrays (useFrame targets handState positions pointsRef time s) r) = length (arrays s r)"
proof (cases pointsRef)
  case None
  then show ?thesis by (simp add: useFrame_def)
next
  case (Some currentPositions)
  show ?thesis
    using animate_loop_invariant [where k = PARTICLE_COUNT
        and tp = "select_target targets (gesture handState)" and hs = handState and time = time
        and positions = positions and currentPositions = currentPositions and h = "arrays s"]
    by (cases "r = currentPositions") (simp_all add: Some useFrame_def Let_def)
qed

lemma blend_formula: "blend current t = current + (t - current) * 0.08"
  by (simp add: blend_def LERP_SPEED_def)

lemma flat_targets_select: "select_target (flat_targets v) g = replicate (3 * PARTICLE_COUNT) v"
  by (cases g) (simp_all add: select_target_def flat_targets_def)

text \<open>
  Claim C1. For every particle slot \<open>i\<close> and every axis \<open>a\<close>, one tick of the blending
  engine takes the current position to
  \<open>current + (adjustedTarget - current) * 0.08\<close>, where \<open>adjustedTarget\<close> is the adjusted
  target of that slot on that axis for this tick, and \<open>LERP_SPEED\<close> is 0.08.
\<close>

theorem blend_update:
  assumes "pointsRef = Some currentPositions"
    and "length (arrays s currentPositions) = 3 * PARTICLE_COUNT"
    and "length (arrays s positions) = 3 * PARTICLE_COUNT"
    and "length (select_target targets (gesture handState)) = 3 * PARTICLE_COUNT"
    and "i < PARTICLE_COUNT" and "a < 3"
  shows "arrays (useFrame targets handState positions pointsRef time s)
           currentPositions ! (3 * i + a) =
         arrays s currentPositions ! (3 * i + a) +
           (coordinate (particle_target (select_target targets (gesture handState))
              handState time positions i (arrays s)) a
            - arrays s currentPositions ! (3 * i + a)) * 0.08 \<and>
         LERP_SPEED = 0.08"
proof -
  have "3 * i + a < length (arrays s currentPositions)"
    using assms by simp
  then show ?thesis
    using assms by (simp add: useFrame_slot blend_formula) (simp add: LERP_SPEED_def)
qed

text \<open>
  All particles at the origin, every formation point at (1, 1, 1), the initial hand signal:
  the target of slot 1 has depth 2, and one tick moves the particle's depth to 0.16.
\<close>

theorem blend_update_witness:
  "length (arrays (still_scene 0) 0) = 3 * PARTICLE_COUNT \<and>
   length (select_target (flat_targets 1) (gesture initialHandState)) = 3 * PARTICLE_COUNT \<and>
   (1::nat) < PARTICLE_COUNT \<and>
   arrays (useFrame (flat_targets 1) initialHandState 0 (Some 0) 0 (still_scene 0)) 0 ! (3 * 1 + 2)
     = 0.16"
  using blend_update [of "Some 0" 0 "still_scene 0" 0 "flat_targets 1" initialHandState 1 2 0]
  by (simp add: flat_targets_select)
    (simp add: still_scene_def PARTICLE_COUNT_def particle_target_def adjust_target_def
      initialHandState_def coordinate_def Let_def)

lemma particle_target_specified:
  "particle_target (select_target targets (gesture signal)) signal t positions i h =
     specified_target targets signal t i (h positions ! (3 * i))"
  by (cases "gesture signal")
    (simp_all add: particle_target_def adjust_target_def specified_target_def select_target_def
      Let_def mult.commute)

text \<open>
  Claim C2. For every hand signal and elapsed time \<open>t\<close>, the target of slot \<open>i\<close> in a tick
  is: when the gesture is \<open>NONE\<close>, the point of the sphere scaled by
  \<open>expansionFactor = 0.5 + openness * 1.5\<close>, with \<open>sin (t + i * 0.1) * 0.2\<close> added to X and
  \<open>cos (t * 0.5 + i * 0.05) * 0.2\<close> added to Y; when the gesture is \<open>ONE\<close> to \<open>FOUR\<close>, the
  point of the glyph of that gesture with \<open>sin (t * 2 + currentX * 0.5) * 0.05\<close> added to Y,
  where \<open>currentX\<close> is the current X position of the particle.

  The component hands the array \<open>positions\<close> to the geometry as its position attribute, so
  \<open>positions\<close> and \<open>currentPositions\<close> are the same array. The target is taken on the store
  that iteration \<open>i\<close> of the loop finds, after the slots before \<open>i\<close> have moved; the X it
  reads there is still the particle's X of before the tick.
\<close>

theorem target_of_slot:
  assumes "positions = currentPositions"
    and "i < PARTICLE_COUNT"
    and "length (h currentPositions) = 3 * PARTICLE_COUNT"
    and "length (select_target targets (gesture signal)) = 3 * PARTICLE_COUNT"
  shows "particle_target (select_target targets (gesture signal)) signal t positions i
           (for_loop 0 i
              (animate_particle (select_target targets (gesture signal)) signal t
                 positions currentPositions) h) =
         specified_target targets signal t i (h currentPositions ! (3 * i)) \<and>
         for_loop 0 i
           (animate_particle (select_target targets (gesture signal)) signal t
              positions currentPositions) h currentPositions ! (3 * i) =
         h currentPositions ! (3 * i)"
  using animate_loop_invariant [where k = i
      and tp = "select_target targets (gesture signal)" and hs = signal and time = t
      and positions = currentPositions and currentPositions = currentPositions and h = h]
  by (simp add: particle_target_specified assms(1))

text \<open>
  Slot 1 at time 0, every formation point at (1, 1, 1). Under the initial signal, the
  particles at the origin, the target is the sphere point doubled plus the noise. Under
  gesture \<open>TWO\<close>, the particles at (2, 2, 2), it is the glyph point with the wobble
  \<open>sin (2 * 0.5) * 0.05\<close> of the current X on its Y.
\<close>

theorem target_of_slot_witness:
  "(1::nat) < PARTICLE_COUNT \<and>
   length (arrays (still_scene 0) 0) = 3 * PARTICLE_COUNT \<and>
   length (select_target (flat_targets 1) NONE) = 3 * PARTICLE_COUNT \<and>
   particle_target (select_target (flat_targets 1) NONE) initialHandState 0 0 1
     (for_loop 0 1 (animate_particle (select_target (flat_targets 1) NONE) initialHandState 0 0 0)
        (arrays (still_scene 0))) =
     (2 + sin 0.1 * 0.2, 2 + cos 0.05 * 0.2, 2) \<and>
   length (arrays (still_scene 2) 0) = 3 * PARTICLE_COUNT \<and>
   length (select_target (flat_targets 1) TWO) = 3 * PARTICLE_COUNT \<and>
   particle_target (select_target (flat_targets 1) TWO)
     \<lparr>gesture = TWO, openness = 0.6, position = \<lparr>coord_x = 0, coord_y = 0\<rparr>\<rparr> 0 0 1
     (for_loop 0 1 (animate_particle (select_target (flat_targets 1) TWO)
        \<lparr>gesture = TWO, openness = 0.6, position = \<lparr>coord_x = 0, coord_y = 0\<rparr>\<rparr> 0 0 0)
        (arrays (still_scene 2))) =
     (1, 1 + sin 1 * 0.05, 1)"
  using target_of_slot [of 0 0 1 "arrays (still_scene 0)" "flat_targets 1" initialHandState 0]
    target_of_slot [of 0 0 1 "arrays (still_scene 2)" "flat_targets 1"
      "\<lparr>gesture = TWO, openness = 0.6, position = \<lparr>coord_x = 0, coord_y = 0\<rparr>\<rparr>" 0]
  by (simp add: flat_targets_select initialHandState_def)
    (simp add: still_scene_def PARTICLE_COUNT_def specified_target_def flat_targets_def)

lemma blend_to_ten: "((\<lambda>c. blend c 10) ^^ n) 0 = 10 * (1 - 0.92 ^ n)"
proof (induction n)
  case 0
  show ?case by simp
next
  case (Suc n)
  have "((\<lambda>c. blend c 10) ^^ Suc n) 0 = blend (((\<lambda>c. blend c 10) ^^ n) 0) 10"
    by simp
  also have "\<dots> = blend (10 * (1 - 0.92 ^ n)) 10"
    by (simp only: Suc.IH)
  also have "\<dots> = 10 * (1 - 0.92 ^ Suc n)"
    by (simp add: blend_formula algebra_simps)
  finally show ?case .
qed


text \<open>
  The engine runs this iteration on the depth of a particle while a glyph is shown, since
  the depth of a glyph point is not adjusted: after the ticks at the times \<open>ts\<close>, a depth
  that started at 0 under a glyph point of depth 10 is \<open>10 * (1 - 0.92 ^ length ts)\<close>.
\<close>

lemma depth_target:
  "gesture handState \<noteq> NONE \<Longrightarrow>
   coordinate (particle_target tp handState time positions i h) 2 = tp ! (3 * i + 2)"
  by (simp add: particle_target_def adjust_target_def coordinate_def Let_def mult.commute)

lemma frames_depth:
  assumes "gesture handState \<noteq> NONE" and "i < PARTICLE_COUNT"
    and "length (arrays s currentPositions) = 3 * PARTICLE_COUNT"
  shows "arrays (frames targets handState positions (Some currentPositions) ts s)
           currentPositions ! (3 * i + 2) =
         ((\<lambda>c. blend c (select_target targets (gesture handState) ! (3 * i + 2))) ^^ length ts)
           (arrays s currentPositions ! (3 * i + 2))"
  using assms(3)
proof (induction ts arbitrary: s)
  case Nil
  show ?case by simp
next
  case (Cons time ts)
  define s' where "s' = useFrame targets handState positions (Some currentPositions) time s"
  have len: "length (arrays s' currentPositions) = 3 * PARTICLE_COUNT"
    using Cons.prems by (simp add: s'_def useFrame_length)
  have inr: "3 * i + 2 < length (arrays s currentPositions)"
    using Cons.prems assms(2) by simp
  have first: "arrays s' currentPositions ! (3 * i + 2) =
      blend (arrays s currentPositions ! (3 * i + 2))
        (select_target targets (gesture handState) ! (3 * i + 2))"
    unfolding s'_def using useFrame_slot [OF assms(2) _ inr, of targets handState positions time]
    by (simp add: depth_target [OF assms(1)])
  let ?f = "\<lambda>c. blend c (select_target targets (gesture handState) ! (3 * i + 2))"
  have "arrays (frames targets handState positions (Some currentPositions) (time # ts) s)
          currentPositions ! (3 * i + 2) =
        arrays (frames targets handState positions (Some currentPositions) ts s')
          currentPositions ! (3 * i + 2)"
    by (simp add: s'_def)
  also have "\<dots> = (?f ^^ length ts) (arrays s' currentPositions ! (3 * i + 2))"
    by (rule Cons.IH [OF len])
  also have "\<dots> = (?f ^^ length ts) (?f (arrays s currentPositions ! (3 * i + 2)))"
    by (simp only: first)
  also have "\<dots> = (?f ^^ length (time # ts)) (arrays s currentPositions ! (3 * i + 2))"
    by (simp only: length_Cons funpow_Suc_right o_apply)
  finally show ?case .
qed

lemma frames_depth_ten:
  assumes "gesture handState \<noteq> NONE" and "i < PARTICLE_COUNT"
    and "length (arrays s currentPositions) = 3 * PARTICLE_COUNT"
    and "select_target targets (gesture handState) ! (3 * i + 2) = 10"
    and "arrays s currentPositions ! (3 * i + 2) = 0"
  shows "arrays (frames targets handState positions (Some currentPositions) ts s)
           currentPositions ! (3 * i + 2) = 10 * (1 - 0.92 ^ length ts)"
  using frames_depth [OF assms(1-3), of targets positions ts] assms(4,5)
  by (simp add: blend_to_ten)

text \<open>
  Claim C10. Before any hand frame has been processed the hand signal is gesture \<open>NONE\<close>,
  openness 1.0 and position (0, 0). So the first ticks of the engine select the sphere and
  blend toward the sphere scaled by \<open>expansionFactor = 0.5 + 1.0 * 1.5 = 2\<close> (plus the
  noise), not toward the sphere as sampled.
\<close>

theorem initial_signal:
  "gesture initialHandState = NONE \<and> openness initialHandState = 1 \<and>
   position initialHandState = \<lparr>coord_x = 0, coord_y = 0\<rparr> \<and>
   0.5 + openness initialHandState * 1.5 = 2 \<and>
   select_target targets (gesture initialHandState) = sphere targets \<and>
   particle_target (select_target targets (gesture initialHandState)) initialHandState
     time positions i h =
     (sphere targets ! (3 * i) * 2 + sin (time + real i * 0.1) * 0.2,
      sphere targets ! (3 * i + 1) * 2 + cos (time * 0.5 + real i * 0.05) * 0.2,
      sphere targets ! (3 * i + 2) * 2) \<and>
   (i < PARTICLE_COUNT \<and> a < 3 \<and> length (arrays s currentPositions) = 3 * PARTICLE_COUNT \<longrightarrow>
    arrays (useFrame targets initialHandState positions (Some currentPositions) time s)
      currentPositions ! (3 * i + a) =
    blend (arrays s currentPositions ! (3 * i + a))
      (coordinate
         (sphere targets ! (3 * i) * 2 + sin (time + real i * 0.1) * 0.2,
          sphere targets ! (3 * i + 1) * 2 + cos (time * 0.5 + real i * 0.05) * 0.2,
          sphere targets ! (3 * i + 2) * 2) a))"
proof -
  have target: "particle_target (select_target targets (gesture initialHandState)) initialHandState
     time positions i h =
     (sphere targets ! (3 * i) * 2 + sin (time + real i * 0.1) * 0.2,
      sphere targets ! (3 * i + 1) * 2 + cos (time * 0.5 + real i * 0.05) * 0.2,
      sphere targets ! (3 * i + 2) * 2)" for h
    by (subst particle_target_specified) (simp add: specified_target_def initialHandState_def)
  show ?thesis
    by (simp add: useFrame_slot target) (simp add: initialHandState_def select_target_def)
qed

text \<open>
  All particles at (1, 1, 1), on the sphere points they were seeded from: the first tick
  moves the X of slot 0 toward twice its value, to 1.08.
\<close>

theorem initial_signal_witness:
  "(0::nat) < PARTICLE_COUNT \<and> length (arrays (still_scene 1) 0) = 3 * PARTICLE_COUNT \<and>
   arrays (useFrame (flat_targets 1) initialHandState 0 (Some 0) 0 (still_scene 1)) 0 ! (3 * 0 + 0)
     = 1.08"
  using initial_signal [of "flat_targets 1" 0 0 0 "arrays (still_scene 1)" 0 "still_scene 1" 0]
  by (simp add: still_scene_def PARTICLE_COUNT_def flat_targets_def blend_formula coordinate_def)

end
